theory Spec2Isabelle
  imports Main
begin

section \<open>JavaScript values used by the engine\<close>

text \<open>
  The instants of the engine are epoch milliseconds, which a JavaScript \<open>Date\<close> holds
  as an integer of magnitude at most 8.64e15: they are values of type \<open>int\<close>. The other
  numbers are IEEE doubles; the model keeps their exact values and writes out every
  rounding. \<open>NaN\<close> and \<open>undefined\<close> are the value \<open>None\<close> of an option type.
\<close>

datatype error = Error string | TypeError string

subsection \<open>Decimal digits\<close>

definition is_digit :: "char \<Rightarrow> bool" where
  "is_digit c = (c \<in> set ''0123456789'')"

definition digit_val :: "char \<Rightarrow> nat" where
  "digit_val c = of_char c - 48"

definition digit_char :: "nat \<Rightarrow> char" where
  "digit_char d = ''0123456789'' ! d"

text \<open>The number that a string of decimal digits denotes.\<close>

definition decimal_value :: "string \<Rightarrow> nat" where
  "decimal_value ds = foldl (\<lambda>a c. 10 * a + digit_val c) 0 ds"

subsection \<open>Number to string\<close>

text \<open>
  The conversion of an integer to a string, as a template literal or a string
  concatenation applies it to an integer below 1e21.
\<close>

function show_nat :: "nat \<Rightarrow> string" where
  "show_nat n =
     (if n < 10 then [digit_char n]
      else show_nat (n div 10) @ [digit_char (n mod 10)])"
  by pat_completeness auto
termination
  by (relation "measure (\<lambda>n. n)") auto

declare show_nat.simps [simp del]

definition show_int :: "int \<Rightarrow> string" where
  "show_int i =
     (if i < 0 then CHR ''-'' # show_nat (nat (- i)) else show_nat (nat i))"

text \<open>A number that may be \<open>NaN\<close>, as string concatenation prints it.\<close>

definition show_number :: "int option \<Rightarrow> string" where
  "show_number x = (case x of None \<Rightarrow> ''NaN'' | Some i \<Rightarrow> show_int i)"

text \<open>
  The specification of the printed form, stated without the printer: a string is the
  decimal numeral of a natural number when it is a non-empty string of digits without a
  leading zero (the numeral \<open>0\<close> apart) that denotes the number; the numeral of a
  negative integer is a minus sign followed by the numeral of its magnitude.
\<close>

definition is_decimal_of_nat :: "string \<Rightarrow> nat \<Rightarrow> bool" where
  "is_decimal_of_nat s n =
     (s \<noteq> [] \<and> list_all is_digit s \<and> (hd s = CHR ''0'' \<longrightarrow> s = ''0'')
      \<and> decimal_value s = n)"


subsection \<open>Doubles\<close>

text \<open>
  A non-negative double with an integer value, or \<open>Infinity\<close>: the values a bucket
  length can take.
\<close>

datatype number = Finite nat | Infinity

text \<open>The number of binary digits of a natural number.\<close>

function bit_length :: "nat \<Rightarrow> nat" where
  "bit_length n = (if n = 0 then 0 else bit_length (n div 2) + 1)"
  by pat_completeness auto
termination
  by (relation "measure (\<lambda>n. n)") auto

declare bit_length.simps [simp del]

text \<open>The quotient \<open>n / d\<close> rounded to the nearest integer, a tie to the even one.\<close>

definition round_half_even :: "nat \<Rightarrow> nat \<Rightarrow> nat" where
  "round_half_even n d =
     (let q = n div d; r = n mod d
      in if d < 2 * r \<or> (2 * r = d \<and> odd q) then q + 1 else q)"

text \<open>
  The double nearest to a natural number: the number itself below \<open>2^53\<close>; above, the
  number rounded to 53 significant binary digits, a tie to the even mantissa, and
  \<open>Infinity\<close> from \<open>2^1024\<close> on.
\<close>

definition round_double :: "nat \<Rightarrow> number" where
  "round_double n =
     (if n < 2 ^ 53 then Finite n
      else (let e = bit_length n - 53;
                m = round_half_even n (2 ^ e)
            in if m * 2 ^ e < 2 ^ 1024 then Finite (m * 2 ^ e) else Infinity))"

text \<open>
  The product of a double of this kind and a positive integer constant: the exact
  product, rounded.
\<close>

definition js_times :: "number \<Rightarrow> nat \<Rightarrow> number" where
  "js_times x c = (case x of Finite a \<Rightarrow> round_double (a * c) | Infinity \<Rightarrow> Infinity)"

text \<open>
  The double nearest to the quotient \<open>a / b\<close> of two positive integers, for a quotient
  below \<open>2^53\<close>: the pair \<open>(m, s)\<close> stands for the double \<open>m / 2^s\<close>. The shift \<open>s\<close> is
  the least one that brings the mantissa to 53 binary digits, and at most 1074, the
  shift of the subnormal doubles; the mantissa is rounded, a tie to the even one.
\<close>

function mantissa_shift :: "nat \<Rightarrow> nat \<Rightarrow> nat \<Rightarrow> nat" where
  "mantissa_shift a b s =
     (if 2 ^ 52 * b \<le> a * 2 ^ s \<or> 1074 \<le> s then s else mantissa_shift a b (s + 1))"
  by pat_completeness auto
termination
  by (relation "measure (\<lambda>(a, b, s). 1074 - s)") auto

declare mantissa_shift.simps [simp del]

definition double_of_quotient :: "nat \<Rightarrow> nat \<Rightarrow> nat \<times> nat" where
  "double_of_quotient a b =
     (let s = mantissa_shift a b 0 in (round_half_even (a * 2 ^ s) b, s))"

definition double_le :: "nat \<times> nat \<Rightarrow> nat \<times> nat \<Rightarrow> bool" where
  "double_le x y = (fst x * 2 ^ snd y \<le> fst y * 2 ^ snd x)"

text \<open>
  The first digit that \<open>Number::toString\<close> prints for a double \<open>x\<close> below the double of
  \<open>1e-6\<close>. The string holds the shortest decimal that reads back as \<open>x\<close>; a decimal of
  one digit is the shortest of all, so the printed decimal is at least \<open>d * 10^-k\<close>
  exactly when \<open>x\<close> is at least the double of \<open>d * 10^-k\<close>. The decade \<open>k\<close> is found
  first, then the digit.
\<close>

function printed_decade :: "nat \<times> nat \<Rightarrow> nat \<Rightarrow> nat" where
  "printed_decade x k =
     (if double_le (double_of_quotient 1 (10 ^ k)) x \<or> 400 \<le> k then k
      else printed_decade x (k + 1))"
  by pat_completeness auto
termination
  by (relation "measure (\<lambda>(x, k). 400 - k)") auto

declare printed_decade.simps [simp del]

function printed_digit :: "nat \<times> nat \<Rightarrow> nat \<Rightarrow> nat \<Rightarrow> nat" where
  "printed_digit x k d =
     (if d < 9 \<and> double_le (double_of_quotient (d + 1) (10 ^ k)) x
      then printed_digit x k (d + 1) else d)"
  by pat_completeness auto
termination
  by (relation "measure (\<lambda>(x, k, d). 9 - d)") auto

declare printed_digit.simps [simp del]

definition first_printed_digit :: "nat \<times> nat \<Rightarrow> nat" where
  "first_printed_digit x = printed_digit x (printed_decade x 7) 1"

section \<open>Generator: bucket index of an instant\<close>

text \<open>The table \<open>units\<close>: the length of each unit in seconds.\<close>

definition units :: "char \<Rightarrow> nat option" where
  "units u =
     (if u = CHR ''s'' then Some 1
      else if u = CHR ''m'' then Some 60
      else if u = CHR ''h'' then Some (60 * 60)
      else if u = CHR ''d'' then Some (60 * 60 * 24)
      else None)"

definition is_unit_char :: "char \<Rightarrow> bool" where
  "is_unit_char c = (c \<in> set ''smhd'')"

text \<open>
  The regular expression \<open>/([0-9]+)([smhd])/\<close> of \<open>getLengthFromSize\<close> has no anchors:
  \<open>exec\<close> finds its leftmost match anywhere in the string. \<open>re_match_here\<close> is the
  match attempt at the start of a string: the greedy \<open>[0-9]+\<close> takes the whole run of
  digits, and the next character must be a unit letter (giving digits back cannot help,
  since the character after a shorter run is a digit, not a unit letter). The result is
  the pair of the two groups.
\<close>

definition re_match_here :: "string \<Rightarrow> (string \<times> char) option" where
  "re_match_here s =
     (let ds = takeWhile is_digit s; rest = dropWhile is_digit s
      in case rest of
           [] \<Rightarrow> None
         | u # _ \<Rightarrow> if ds \<noteq> [] \<and> is_unit_char u then Some (ds, u) else None)"

fun re_exec :: "string \<Rightarrow> (string \<times> char) option" where
  "re_exec [] = None"
| "re_exec (c # cs) =
     (case re_match_here (c # cs) of
        Some m \<Rightarrow> Some m
      | None \<Rightarrow> re_exec cs)"

text \<open>
  \<open>parseInt\<close> on a string of decimal digits: the double nearest to the number the
  digits denote. (Beyond 20 significant digits the language lets an implementation
  approximate the number before rounding; the model rounds the exact number, as the
  common engines do.)
\<close>

definition parseInt_digits :: "string \<Rightarrow> number" where
  "parseInt_digits ds = round_double (decimal_value ds)"

text \<open>
  \<open>getLengthFromSize\<close>: the length of the bucket in milliseconds,
  \<open>num * units[unit].length * 1000\<close> with each product rounded to a double, or
  \<open>undefined\<close> (\<open>None\<close>) when the expression does not match. Nothing is thrown on
  either path.
\<close>

definition getLengthFromSize :: "string \<Rightarrow> number option" where
  "getLengthFromSize sz =
     (case re_exec sz of
        Some (num, unit) \<Rightarrow>
          (case units unit of
             Some l \<Rightarrow> Some (js_times (js_times (parseInt_digits num) l) 1000)
           | None \<Rightarrow> None)
      | None \<Rightarrow> None)"

text \<open>
  \<open>moment.utc(date).valueOf()\<close>: the epoch milliseconds of the instant, \<open>NaN\<close> for an
  instant outside the range of a \<open>Date\<close>.
\<close>

definition valueOf_utc :: "int \<Rightarrow> int option" where
  "valueOf_utc date = (if \<bar>date\<bar> \<le> 8640000000000000 then Some date else None)"

text \<open>
  \<open>parseInt(dd / length, 10)\<close> for a finite length: the quotient, a double, is
  converted to a string and the leading integer of the string is read. Division by
  zero gives an infinity or \<open>NaN\<close>, which \<open>parseInt\<close> reads as \<open>NaN\<close>. A quotient from
  the double of \<open>1e-6\<close> on is printed in decimal notation, and \<open>parseInt\<close> reads its
  integer part: the quotient with its fraction cut off (rounded towards zero, not
  down). A smaller nonzero quotient is printed in exponent notation (\<open>1.15e-8\<close>), and
  \<open>parseInt\<close> reads its first digit. A quotient that is rounded to zero is printed as
  \<open>0\<close>.
\<close>

definition parseInt_quotient :: "int \<Rightarrow> nat \<Rightarrow> int option" where
  "parseInt_quotient dd len =
     (if len = 0 then None
      else if dd = 0 then Some 0
      else (let x = double_of_quotient (nat \<bar>dd\<bar>) len
            in if fst x = 0 then Some 0
               else if double_le (double_of_quotient 1 (10 ^ 6)) x
               then Some (sgn dd * int (fst x div 2 ^ snd x))
               else Some (sgn dd * int (first_printed_digit x))))"

text \<open>
  \<open>getBucketPosFromDate\<close>. A quotient by an undefined length is \<open>NaN\<close>; a quotient by
  \<open>Infinity\<close> is zero.
\<close>

definition getBucketPosFromDate :: "int \<Rightarrow> number option \<Rightarrow> int option" where
  "getBucketPosFromDate date len =
     (case valueOf_utc date of
        None \<Rightarrow> None
      | Some dd \<Rightarrow>
          (case len of
             None \<Rightarrow> None
           | Some Infinity \<Rightarrow> Some 0
           | Some (Finite l) \<Rightarrow> parseInt_quotient dd l))"

text \<open>
  A \<open>Generator\<close> object holds \<open>size\<close> and \<open>length\<close>, set by the constructor;
  \<open>bucketIndex\<close> is given here with the constructor inlined.
\<close>

definition bucketIndex :: "string \<Rightarrow> int \<Rightarrow> string" where
  "bucketIndex sz date =
     (let len = getLengthFromSize sz;
          pos = getBucketPosFromDate date len
      in sz @ ''-'' @ show_number pos)"

text \<open>The grammar of the specification, \<open>/^[0-9]+[smhd]$/\<close>.\<close>

definition valid_size_spec :: "string \<Rightarrow> bool" where
  "valid_size_spec s =
     (s \<noteq> [] \<and> butlast s \<noteq> [] \<and> list_all is_digit (butlast s) \<and> is_unit_char (last s))"

section \<open>Events\<close>

text \<open>
  The values that the data of an event and the meta data of a series hold.
\<close>

datatype jsvalue =
    JUndefined
  | JNull
  | JBool bool
  | JNum int
  | JStr string
  | JArr "jsvalue list"
  | JObj "(string \<times> jsvalue) list"

subsection \<open>Objects and maps\<close>

text \<open>
  A JavaScript object is the list of its properties in the order in which
  \<open>Object.keys\<close> lists them: first the keys that are array indices (the decimal
  numerals of the integers below \<open>2^32 - 1\<close>) in ascending order, then the other keys
  in the order of their creation. The same type holds the entries of an
  \<open>Immutable.Map\<close>, each key once, in the order in which the map iterates over them.
\<close>

type_synonym data = "(string \<times> jsvalue) list"

definition array_index :: "string \<Rightarrow> nat option" where
  "array_index k =
     (if is_decimal_of_nat k (decimal_value k) \<and> decimal_value k < 2 ^ 32 - 1
      then Some (decimal_value k) else None)"

text \<open>
  The place of a key among the properties: an array index is placed by its number,
  every other key after all array indices.
\<close>

definition key_rank :: "string \<Rightarrow> nat" where
  "key_rank k = (case array_index k of Some n \<Rightarrow> n | None \<Rightarrow> 2 ^ 32)"

text \<open>
  The assignment \<open>object[k] = v\<close>: a property that exists keeps its place and takes
  the new value; a new property is created behind the properties that do not come
  after it. The key \<open>__proto__\<close> is no property of an object: an assignment to it
  creates none (it sets the prototype when the value is an object, which the model
  does not follow).
\<close>

fun js_update :: "data \<Rightarrow> string \<Rightarrow> jsvalue \<Rightarrow> data" where
  "js_update [] k v = []"
| "js_update ((k', v') # d) k v =
     (if k' = k then (k, v) # d else (k', v') # js_update d k v)"

fun js_insert :: "data \<Rightarrow> string \<Rightarrow> jsvalue \<Rightarrow> data" where
  "js_insert [] k v = [(k, v)]"
| "js_insert ((k', v') # d) k v =
     (if key_rank k < key_rank k' then (k, v) # (k', v') # d
      else (k', v') # js_insert d k v)"

definition js_set :: "data \<Rightarrow> string \<Rightarrow> jsvalue \<Rightarrow> data" where
  "js_set d k v =
     (if k = ''__proto__'' then d
      else if k \<in> set (map fst d) then js_update d k v
      else js_insert d k v)"

text \<open>
  \<open>toJSON()\<close> of an \<open>Immutable.Map\<close> whose values are plain: a new object that is
  assigned the entries of the map one after the other.
\<close>

definition to_object :: "data \<Rightarrow> data" where
  "to_object d = fold (\<lambda>(k, v) object. js_set object k v) d []"

text \<open>\<open>_.values(object)\<close>: the values of the properties, in the order of \<open>Object.keys\<close>.\<close>

definition js_values :: "data \<Rightarrow> jsvalue list" where
  "js_values object = map snd object"

subsection \<open>The three variants\<close>

text \<open>
  Modelled from the spec: the classes \<open>TimeRange\<close> and \<open>Index\<close> are not among the
  sources. A \<open>TimeRange\<close> is the pair of its begin and end instants in epoch
  milliseconds; an \<open>Index\<close> is its string together with the time range the string
  resolves to.
\<close>

record timerange =
  tr_begin :: int
  tr_end :: int

record index =
  asString :: string
  asTimerange :: timerange

datatype event =
    TimeEvent int data
  | TimeRangeEvent timerange data
  | IndexedEvent index data

fun event_data :: "event \<Rightarrow> data" where
  "event_data (TimeEvent t d) = d"
| "event_data (TimeRangeEvent r d) = d"
| "event_data (IndexedEvent i d) = d"

text \<open>
  \<open>key()\<close>: \<open>TimeRangeEvent.key\<close> prints the begin and the end of the range as
  numbers, joined by a comma; \<open>IndexedEvent.key\<close> is \<open>indexAsString()\<close>.

  Modelled from the spec: the class \<open>TimeEvent\<close> is not among the sources; the key
  of a point event is its timestamp in milliseconds, its timestamp is its instant, and
  its point starts with the timestamp in milliseconds.
\<close>

fun key :: "event \<Rightarrow> string" where
  "key (TimeRangeEvent r d) = show_int (tr_begin r) @ '','' @ show_int (tr_end r)"
| "key (IndexedEvent i d) = asString i"
| "key (TimeEvent t d) = show_int t"

text \<open>
  \<open>timestamp()\<close> is \<open>begin()\<close> in \<open>TimeRangeEvent\<close> and \<open>IndexedEvent\<close>: the begin of
  the event's time range.
\<close>

fun timestamp :: "event \<Rightarrow> int" where
  "timestamp (TimeEvent t d) = t"
| "timestamp (TimeRangeEvent r d) = tr_begin r"
| "timestamp (IndexedEvent i d) = tr_begin (asTimerange i)"

text \<open>
  \<open>toPoint()\<close>: the key of the event in its JSON form, followed by
  \<open>_.values(this.data().toJSON())\<close>. The JSON form of a time range is the pair of its
  instants.
\<close>

fun toPoint :: "event \<Rightarrow> jsvalue list" where
  "toPoint (TimeEvent t d) = JNum t # js_values (to_object d)"
| "toPoint (TimeRangeEvent r d) =
     JArr [JNum (tr_begin r), JNum (tr_end r)] # js_values (to_object d)"
| "toPoint (IndexedEvent i d) = JStr (asString i) # js_values (to_object d)"

section \<open>Collection\<close>

text \<open>
  Modelled from the spec: the class \<open>Collection\<close> is not among the sources. A
  collection is the ordered sequence of its events; \<open>isChronological()\<close> holds when
  the timestamps do not decrease; \<open>sortByTime()\<close> is a stable sort by timestamp;
  \<open>atFirst()\<close> is the first event, \<open>undefined\<close> in an empty collection.
\<close>

type_synonym collection = "event list"

definition isChronological :: "collection \<Rightarrow> bool" where
  "isChronological c = sorted (map timestamp c)"

definition sortByTime :: "collection \<Rightarrow> collection" where
  "sortByTime c = sort_key timestamp c"

definition atFirst :: "collection \<Rightarrow> event option" where
  "atFirst c = (case c of [] \<Rightarrow> None | e # _ \<Rightarrow> Some e)"

section \<open>TimeSeries\<close>

subsection \<open>Meta data\<close>

text \<open>
  The meta data of a series is a JavaScript object, later an \<open>Immutable.Map\<close>, with
  the keys \<open>name\<close>, \<open>index\<close> and \<open>utc\<close> and any further keys. A key that is absent
  is \<open>None\<close>. An index is given as a string or as an \<open>Index\<close> object. The further
  keys, each once, are keys other than \<open>name\<close>, \<open>index\<close>, \<open>utc\<close> and the four keys
  \<open>events\<close>, \<open>collection\<close>, \<open>columns\<close> and \<open>points\<close> that the constructor reads.
\<close>

datatype index_arg = IdxString string | IdxObject index

record meta =
  m_name :: "string option"
  m_index :: "index_arg option"
  m_utc :: "bool option"
  m_extra :: data

text \<open>
  \<open>buildMetaData\<close>. The local \<open>d\<close> is the argument \<open>meta\<close> itself, not a copy, so
  every assignment to \<open>d\<close> is seen through \<open>meta\<close>: after \<open>d.utc = true\<close> the test
  \<open>_.isBoolean(meta.utc)\<close> reads the value just written. \<open>new Index(s)\<close> is called
  with the string alone, that is with the UTC flag at its default \<open>true\<close>; the function
  \<open>R\<close> stands for the resolution of an index string to its time range, which is not
  among the sources.
\<close>

definition buildMetaData :: "(string \<Rightarrow> bool \<Rightarrow> timerange) \<Rightarrow> meta \<Rightarrow> meta" where
  "buildMetaData R meta =
     (let d = meta;
          d = d\<lparr>m_name := Some (case m_name d of
                                  None \<Rightarrow> ''''
                                | Some n \<Rightarrow> if n \<noteq> [] then n else '''')\<rparr>;
          d = (case m_index d of
                 None \<Rightarrow> d
               | Some (IdxString s) \<Rightarrow>
                   if s \<noteq> []
                   then d\<lparr>m_index := Some (IdxObject \<lparr>asString = s, asTimerange = R s True\<rparr>)\<rparr>
                   else d
               | Some (IdxObject i) \<Rightarrow> d\<lparr>m_index := Some (IdxObject i)\<rparr>);
          d = d\<lparr>m_utc := Some True\<rparr>;
          d = (case m_utc d of None \<Rightarrow> d | Some b \<Rightarrow> d\<lparr>m_utc := Some b\<rparr>)
      in d)"

text \<open>
  \<open>toJSON()\<close> of the meta data map: every value with a \<open>toJSON\<close> method is replaced
  by its result, so an \<open>Index\<close> object becomes its string.
\<close>

definition meta_toJSON :: "meta \<Rightarrow> meta" where
  "meta_toJSON d =
     d\<lparr>m_index := (case m_index d of
                     Some (IdxObject i) \<Rightarrow> Some (IdxString (asString i))
                   | x \<Rightarrow> x)\<rparr>"

subsection \<open>The series and the arguments of its constructor\<close>

text \<open>The two fields \<open>_collection\<close> and \<open>_data\<close>; \<open>null\<close> is \<open>None\<close>.\<close>

record timeseries =
  ts_collection :: "collection option"
  ts_data :: "meta option"

text \<open>
  The object given to the constructor, also the object \<open>toJSON()\<close> returns: the keys
  \<open>events\<close>, \<open>collection\<close>, \<open>columns\<close> and \<open>points\<close>, each present or not, and the
  remaining keys, which are the meta data. A row of \<open>points\<close> is an array: the key of
  the event, then the values.
\<close>

record obj =
  o_events :: "event list option"
  o_collection :: "collection option"
  o_columns :: "string list option"
  o_points :: "jsvalue list list option"
  o_meta :: meta

text \<open>
  What the Avro decoder returns for a buffer: the columns, the points as records of one
  key field (named by the key schema) and a data field, and the meta data fields.
\<close>

record avro_point =
  p_key_name :: string
  p_key :: jsvalue
  p_data :: data

record avro_obj =
  a_columns :: "string list"
  a_points :: "avro_point list"
  a_meta :: meta

type_synonym buffer = "nat list"

datatype ctor_arg =
    ArgTimeSeries timeseries
  | ArgBuffer buffer
  | ArgObject obj
  | ArgOther

text \<open>The three event classes, as values returned by the static method \<open>event\<close>.\<close>

datatype event_class = TimeEvent_class | TimeRangeEvent_class | IndexedEvent_class

text \<open>
  The constructor reaches its collaborators through \<open>this\<close>: \<open>this.constructor.event\<close>
  is the static method \<open>event\<close> of the class being constructed, which a subclass may
  reimplement (the comment of \<open>event\<close> invites it, for Avro serialization);
  \<open>this.schema().fromBuffer\<close> is the Avro decoder for the schema of an event class.
  They are parameters of the model, with the resolution of index strings.
\<close>

record klass =
  k_name :: string
  k_event :: "string option \<Rightarrow> error + event_class"
  k_fromBuffer :: "event_class \<Rightarrow> buffer \<Rightarrow> error + avro_obj"
  k_rangeFromIndexString :: "string \<Rightarrow> bool \<Rightarrow> timerange"

text \<open>The static method \<open>event\<close> of \<open>TimeSeries\<close>; the key \<open>undefined\<close> is \<open>None\<close>.\<close>

definition TimeSeries_event :: "string option \<Rightarrow> error + event_class" where
  "TimeSeries_event eventKey =
     (if eventKey = Some ''time'' then Inr TimeEvent_class
      else if eventKey = Some ''timerange'' then Inr TimeRangeEvent_class
      else if eventKey = Some ''index'' then Inr IndexedEvent_class
      else Inl (Error (''Unknown event type: '' @
                       (case eventKey of None \<Rightarrow> ''undefined'' | Some k \<Rightarrow> k))))"

definition TimeSeries_class ::
  "(event_class \<Rightarrow> buffer \<Rightarrow> error + avro_obj) \<Rightarrow> (string \<Rightarrow> bool \<Rightarrow> timerange) \<Rightarrow> klass" where
  "TimeSeries_class dec R =
     \<lparr>k_name = ''TimeSeries'', k_event = TimeSeries_event, k_fromBuffer = dec,
      k_rangeFromIndexString = R\<rparr>"

text \<open>
  \<open>new Event(t, d, options)\<close>. Modelled from the spec: the helpers that read the key
  (\<open>util.timeRangeFromArg\<close>, \<open>util.indexFromArgs\<close>) and the class \<open>TimeEvent\<close> are
  not among the sources. The key of the wire format is accepted: epoch milliseconds for
  a point event, a pair of them for a range event, an index string for an indexed
  event, resolved with the UTC flag given as \<open>options\<close>. Any other key is an error.
\<close>

definition new_Event ::
  "(string \<Rightarrow> bool \<Rightarrow> timerange) \<Rightarrow> event_class \<Rightarrow> jsvalue \<Rightarrow> data \<Rightarrow> bool \<Rightarrow> error + event" where
  "new_Event R c t d utc =
     (case c of
        TimeEvent_class \<Rightarrow>
          (case t of
             JNum n \<Rightarrow> Inr (TimeEvent n d)
           | _ \<Rightarrow> Inl (Error ''Unable to read the key of the event''))
      | TimeRangeEvent_class \<Rightarrow>
          (case t of
             JArr [JNum b, JNum e] \<Rightarrow> Inr (TimeRangeEvent \<lparr>tr_begin = b, tr_end = e\<rparr> d)
           | _ \<Rightarrow> Inl (Error ''Unable to read the key of the event''))
      | IndexedEvent_class \<Rightarrow>
          (case t of
             JStr s \<Rightarrow> Inr (IndexedEvent \<lparr>asString = s, asTimerange = R s utc\<rparr> d)
           | _ \<Rightarrow> Inl (Error ''Unable to read the key of the event'')))"

text \<open>\<open>Array.map\<close> with a callback that may throw: the first error ends the loop.\<close>

fun map_result :: "('a \<Rightarrow> error + 'b) \<Rightarrow> 'a list \<Rightarrow> error + 'b list" where
  "map_result f [] = Inr []"
| "map_result f (x # xs) =
     (case f x of
        Inl e \<Rightarrow> Inl e
      | Inr y \<Rightarrow> (case map_result f xs of Inl e \<Rightarrow> Inl e | Inr ys \<Rightarrow> Inr (y # ys)))"

text \<open>
  \<open>_.object(list, values)\<close>: \<open>result[list[i]] = values[i]\<close> for every index of
  \<open>list\<close>, starting from the empty object; a missing value is \<open>undefined\<close>.
\<close>

fun object_from :: "data \<Rightarrow> string list \<Rightarrow> jsvalue list \<Rightarrow> data" where
  "object_from result [] vs = result"
| "object_from result (k # ks) vs =
     object_from (js_set result k (case vs of [] \<Rightarrow> JUndefined | v # _ \<Rightarrow> v)) ks (tl vs)"

definition js_object :: "string list \<Rightarrow> jsvalue list \<Rightarrow> data" where
  "js_object list vs = object_from [] list vs"

subsection \<open>The constructor\<close>

text \<open>The check at the end of the object branch.\<close>

definition check_chronological :: "timeseries \<Rightarrow> error + timeseries" where
  "check_chronological s =
     (case ts_collection s of
        None \<Rightarrow> Inl (TypeError ''Cannot read property isChronological of null'')
      | Some c \<Rightarrow>
          if \<not> isChronological c
          then Inl (Error ''TimeSeries was passed non-chronological events'')
          else Inr s)"

text \<open>
  The branch \<open>_.isObject(arg)\<close>. In the branches \<open>events\<close> and \<open>collection\<close> the
  rest of the object, \<open>utc\<close> included, is the meta data; in the branch of the wire
  format \<open>utc\<close> is taken out (default \<open>true\<close>) and given to the events. Keys of the
  other branches left in the rest (\<open>columns\<close> beside \<open>events\<close>, say) are not carried
  into the meta data of the model: the model is that of the constructor on an object
  that gives the events in one form.
\<close>

definition from_object :: "klass \<Rightarrow> obj \<Rightarrow> error + timeseries" where
  "from_object K obj =
     (case o_events obj of
        Some events \<Rightarrow>
          check_chronological
            \<lparr>ts_collection = Some events,
             ts_data = Some (buildMetaData (k_rangeFromIndexString K) (o_meta obj))\<rparr>
      | None \<Rightarrow>
     (case o_collection obj of
        Some collection \<Rightarrow>
          check_chronological
            \<lparr>ts_collection = Some collection,
             ts_data = Some (buildMetaData (k_rangeFromIndexString K) (o_meta obj))\<rparr>
      | None \<Rightarrow>
     (case (o_columns obj, o_points obj) of
        (Some columns, Some points) \<Rightarrow>
          (let utc = (case m_utc (o_meta obj) of None \<Rightarrow> True | Some b \<Rightarrow> b);
               meta2 = (o_meta obj)\<lparr>m_utc := None\<rparr>;
               eventKey = (case columns of [] \<Rightarrow> None | k # _ \<Rightarrow> Some k);
               eventFields = tl columns
           in case map_result
                     (\<lambda>point.
                        let t = (case point of [] \<Rightarrow> JUndefined | t # _ \<Rightarrow> t);
                            eventValues = tl point;
                            d = js_object eventFields eventValues
                        in case k_event K eventKey of
                             Inl e \<Rightarrow> Inl e
                           | Inr Event \<Rightarrow> new_Event (k_rangeFromIndexString K) Event t d utc)
                     points of
                Inl e \<Rightarrow> Inl e
              | Inr events \<Rightarrow>
                  check_chronological
                    \<lparr>ts_collection = Some events,
                     ts_data = Some (buildMetaData (k_rangeFromIndexString K) meta2)\<rparr>)
      | _ \<Rightarrow> check_chronological \<lparr>ts_collection = None, ts_data = None\<rparr>)))"

text \<open>\<open>`${err}`\<close>: the name of the error and its message.\<close>

fun error_string :: "error \<Rightarrow> string" where
  "error_string (Error m) = ''Error: '' @ m"
| "error_string (TypeError m) = ''TypeError: '' @ m"

text \<open>
  The \<open>try\<close> block of the branch \<open>arg instanceof Buffer\<close>: \<open>this.schema()\<close> is called
  without an event key, so the key schema is that of \<open>this.constructor.event(undefined)\<close>;
  then the buffer is decoded. Either step may throw.
\<close>

definition decode_buffer :: "klass \<Rightarrow> buffer \<Rightarrow> error + avro_obj" where
  "decode_buffer K arg =
     (case k_event K None of
        Inl e \<Rightarrow> Inl e
      | Inr Event \<Rightarrow> k_fromBuffer K Event arg)"

text \<open>
  The branch \<open>arg instanceof Buffer\<close>, with the lines written to the console. The
  \<open>catch\<close> reports the error and goes on with \<open>obj\<close> undefined; the destructuring of
  \<open>obj\<close> that follows throws a \<open>TypeError\<close>. After a successful decoding the events
  are built and the constructor returns: the check of the object branch is not reached.
\<close>

definition from_buffer :: "klass \<Rightarrow> buffer \<Rightarrow> (error + timeseries) \<times> string list" where
  "from_buffer K arg =
     (let (obj, console) =
            (case decode_buffer K arg of
               Inl err \<Rightarrow>
                 (None, [''Unable to construct '' @ k_name K @ '' from Avro Buffer: ''
                           @ error_string err])
             | Inr obj \<Rightarrow> (Some obj, []))
      in case obj of
           None \<Rightarrow> (Inl (TypeError ''Cannot destructure property columns of undefined''), console)
         | Some obj \<Rightarrow>
             (let columns = a_columns obj;
                  points = a_points obj;
                  utc = (case m_utc (a_meta obj) of None \<Rightarrow> True | Some b \<Rightarrow> b);
                  meta2 = (a_meta obj)\<lparr>m_utc := None\<rparr>;
                  eventKey = (case columns of [] \<Rightarrow> None | k # _ \<Rightarrow> Some k)
              in case map_result
                        (\<lambda>point.
                           let t = (if eventKey = Some (p_key_name point) then p_key point
                                    else if eventKey = Some ''data'' then JObj (p_data point)
                                    else JUndefined);
                               d = p_data point
                           in case k_event K eventKey of
                                Inl e \<Rightarrow> Inl e
                              | Inr Event \<Rightarrow> new_Event (k_rangeFromIndexString K) Event t d utc)
                        points of
                   Inl e \<Rightarrow> (Inl e, console)
                 | Inr events \<Rightarrow>
                     (Inr \<lparr>ts_collection = Some events,
                           ts_data = Some (buildMetaData (k_rangeFromIndexString K) meta2)\<rparr>,
                      console)))"

text \<open>
  The constructor: the value is the new series or the error thrown, paired with the
  console output. An argument that is no object at all leaves both fields \<open>null\<close>.
\<close>

definition TimeSeries_constructor :: "klass \<Rightarrow> ctor_arg \<Rightarrow> (error + timeseries) \<times> string list" where
  "TimeSeries_constructor K arg =
     (case arg of
        ArgTimeSeries other \<Rightarrow>
          (Inr \<lparr>ts_collection = ts_collection other, ts_data = ts_data other\<rparr>, [])
      | ArgBuffer b \<Rightarrow> from_buffer K b
      | ArgObject obj \<Rightarrow> (from_object K obj, [])
      | ArgOther \<Rightarrow> (Inr \<lparr>ts_collection = None, ts_data = None\<rparr>, []))"

definition TimeSeries_new :: "klass \<Rightarrow> ctor_arg \<Rightarrow> error + timeseries" where
  "TimeSeries_new K arg = fst (TimeSeries_constructor K arg)"

subsection \<open>Access and serialization\<close>

text \<open>\<open>size()\<close>: the number of events, 0 without a collection.\<close>

definition TimeSeries_size :: "timeseries \<Rightarrow> nat" where
  "TimeSeries_size s = (case ts_collection s of None \<Rightarrow> 0 | Some c \<Rightarrow> length c)"

text \<open>\<open>events()\<close>: the events at the positions below \<open>size()\<close>.\<close>

definition TimeSeries_events :: "timeseries \<Rightarrow> event list" where
  "TimeSeries_events s = (case ts_collection s of None \<Rightarrow> [] | Some c \<Rightarrow> c)"

text \<open>
  \<open>_.each(object, iteratee)\<close> of underscore visits an object that is array-like (its
  property \<open>length\<close> is a number from 0 to \<open>2^53 - 1\<close>) as an array: the iteratee
  receives the indices below the length as keys. Any other object is visited through
  its own keys. \<open>js_length\<close> is the length of an array-like object.
\<close>

definition js_length :: "data \<Rightarrow> nat option" where
  "js_length object =
     (case map_of object ''length'' of
        Some (JNum n) \<Rightarrow> if 0 \<le> n \<and> n \<le> 2 ^ 53 - 1 then Some (nat n) else None
      | _ \<Rightarrow> None)"

definition each_keys :: "data \<Rightarrow> string list" where
  "each_keys object =
     (case js_length object of
        Some n \<Rightarrow> map show_nat [0..<n]
      | None \<Rightarrow> map fst object)"

text \<open>
  \<open>columns()\<close>: for every event, \<open>_.each\<close> over the data of its JSON form sets
  \<open>c[key] = true\<close>; the result is \<open>_.keys(c)\<close>.
\<close>

definition columns_of :: "collection \<Rightarrow> string list" where
  "columns_of c =
     map fst
       (fold (\<lambda>e c. fold (\<lambda>k c. js_set c k (JBool True)) (each_keys (to_object (event_data e))) c)
          c [])"

fun key_column :: "event \<Rightarrow> string" where
  "key_column (TimeEvent t d) = ''time''"
| "key_column (TimeRangeEvent r d) = ''timerange''"
| "key_column (IndexedEvent i d) = ''index''"


text \<open>
  \<open>toJSON()\<close>: no value (\<open>None\<close>) when there is no first event; otherwise the meta
  data extended by \<open>columns\<close> and \<open>points\<close>. Without a collection the call of
  \<open>atFirst\<close> on \<open>null\<close> throws.
\<close>

definition toJSON :: "timeseries \<Rightarrow> error + obj option" where
  "toJSON s =
     (case ts_collection s of
        None \<Rightarrow> Inl (TypeError ''Cannot read property atFirst of null'')
      | Some c \<Rightarrow>
          (case atFirst c of
             None \<Rightarrow> Inr None
           | Some e \<Rightarrow>
               (let columns = key_column e # columns_of c;
                    points = map toPoint c
                in case ts_data s of
                     None \<Rightarrow> Inl (TypeError ''Cannot read property toJSON of null'')
                   | Some d \<Rightarrow>
                       Inr (Some \<lparr>o_events = None, o_collection = None,
                                  o_columns = Some columns, o_points = Some points,
                                  o_meta = meta_toJSON d\<rparr>))))"

text \<open>The argument of the constructor that a result of \<open>toJSON()\<close> is.\<close>

definition arg_of_json :: "obj option \<Rightarrow> ctor_arg" where
  "arg_of_json j = (case j of None \<Rightarrow> ArgOther | Some obj \<Rightarrow> ArgObject obj)"

text \<open>
  \<open>setCollection(collection, isChronological)\<close>: the copy of the series with the
  collection replaced; a missing collection is replaced by an empty one.
\<close>

definition setCollection :: "timeseries \<Rightarrow> collection option \<Rightarrow> bool \<Rightarrow> error + timeseries" where
  "setCollection s collection isChron =
     (let result = \<lparr>ts_collection = Some (case collection of Some c \<Rightarrow> c | None \<Rightarrow> []),
                    ts_data = ts_data s\<rparr>
      in if \<not> isChron
         then (case collection of
                 None \<Rightarrow> Inl (TypeError ''Cannot read property isChronological of undefined'')
               | Some c \<Rightarrow>
                   if \<not> isChronological c
                   then Inl (Error ''Collection supplied is not chronological'')
                   else Inr result)
         else Inr result)"

text \<open>
  \<open>TimeSeries.is\<close>. Modelled from the spec: \<open>Immutable.is\<close> and \<open>Collection.is\<close>
  are not among the sources; they are equality by value. Two maps are equal when they
  have the same keys with the same values, whatever the order of their entries; two
  events are equal when they are of the same variant with the same time and equal data;
  two collections when they hold equal events in the same order. \<open>Collection.is\<close>
  reads fields of both collections, which throws on \<open>null\<close>. The second test is made
  only when the first holds.
\<close>

definition Map_is :: "data \<Rightarrow> data \<Rightarrow> bool" where
  "Map_is a b = list_all (\<lambda>k. map_of a k = map_of b k) (map fst a @ map fst b)"

fun event_is :: "event \<Rightarrow> event \<Rightarrow> bool" where
  "event_is (TimeEvent t d) (TimeEvent t' d') = (t = t' \<and> Map_is d d')"
| "event_is (TimeRangeEvent r d) (TimeRangeEvent r' d') = (r = r' \<and> Map_is d d')"
| "event_is (IndexedEvent i d) (IndexedEvent i' d') = (i = i' \<and> Map_is d d')"
| "event_is _ _ = False"

definition meta_is :: "meta option \<Rightarrow> meta option \<Rightarrow> bool" where
  "meta_is d1 d2 =
     (case (d1, d2) of
        (None, None) \<Rightarrow> True
      | (Some a, Some b) \<Rightarrow>
          m_name a = m_name b \<and> m_index a = m_index b \<and> m_utc a = m_utc b
          \<and> Map_is (m_extra a) (m_extra b)
      | _ \<Rightarrow> False)"

definition Collection_is :: "collection option \<Rightarrow> collection option \<Rightarrow> error + bool" where
  "Collection_is c1 c2 =
     (case (c1, c2) of
        (Some a, Some b) \<Rightarrow> Inr (list_all2 event_is a b)
      | _ \<Rightarrow> Inl (TypeError ''Cannot read property of null''))"

definition TimeSeries_is :: "timeseries \<Rightarrow> timeseries \<Rightarrow> error + bool" where
  "TimeSeries_is series1 series2 =
     (if meta_is (ts_data series1) (ts_data series2)
      then Collection_is (ts_collection series1) (ts_collection series2)
      else Inr False)"

subsection \<open>Bisection\<close>

text \<open>
  The loop of \<open>bisect\<close> over the events \<open>es\<close> of the collection, from position \<open>i\<close>;
  \<open>this.at(i)\<close> is \<open>es ! i\<close> for the positions below the size, the only ones read.
\<close>

function bisect_loop :: "event list \<Rightarrow> int \<Rightarrow> nat \<Rightarrow> int" where
  "bisect_loop es tms i =
     (if i < length es
      then (let ts = timestamp (es ! i)
            in if ts > tms then (if int i - 1 \<ge> 0 then int i - 1 else 0)
               else if ts = tms then int i
               else bisect_loop es tms (Suc i))
      else int i - 1)"
  by pat_completeness auto
termination
  by (relation "measure (\<lambda>(es, tms, i). length es - i)") auto

declare bisect_loop.simps [simp del]

text \<open>
  \<open>bisect(t, b)\<close>: \<open>undefined\<close> (\<open>None\<close>) for a series of size 0; the start position is
  \<open>b || 0\<close>.
\<close>

definition bisect :: "timeseries \<Rightarrow> int \<Rightarrow> nat option \<Rightarrow> int option" where
  "bisect s t b =
     (let tms = t;
          sz = TimeSeries_size s;
          i = (case b of None \<Rightarrow> 0 | Some b \<Rightarrow> b)
      in if sz = 0 then None
         else Some (bisect_loop (TimeSeries_events s) tms i))"

subsection \<open>Rollups\<close>

text \<open>
  An argument that the code tests before use: missing, of the wrong type, or given.
\<close>

datatype 'a jsarg = Missing | WrongType | Given 'a

text \<open>
  The options of a rollup. \<open>fixedWindowRollup\<close> destructures its first argument; when
  that argument is a string, as in the call from \<open>hourlyRollup\<close>, none of the three
  properties exists on it and all three are \<open>undefined\<close>.
\<close>

record 'a rollup_options =
  windowSize :: "string option"
  aggregation :: "'a jsarg"
  toTimeEvents :: "bool option"

datatype 'a rollup_arg = OptionsObject "'a rollup_options" | OptionsString string

definition destructure_options :: "'a rollup_arg \<Rightarrow> 'a rollup_options" where
  "destructure_options arg =
     (case arg of
        OptionsObject options \<Rightarrow> options
      | OptionsString s \<Rightarrow> \<lparr>windowSize = None, aggregation = Missing, toTimeEvents = None\<rparr>)"

text \<open>
  The class \<open>Pipeline\<close> is not among the sources. The parameter \<open>P\<close> stands for the
  chain \<open>windowBy(windowSize).emitOn("discard").aggregate(aggregation)\<close>, then
  \<open>asTimeEvents()\<close> if asked for, \<open>clearWindow().toKeyedCollections()\<close> and the
  entry \<open>"all"\<close> of the result, on the collection of the series.
\<close>

type_synonym 'a pipeline =
  "collection option \<Rightarrow> string \<Rightarrow> 'a \<Rightarrow> bool \<Rightarrow> error + collection option"

definition fixedWindowRollup ::
  "'a pipeline \<Rightarrow> timeseries \<Rightarrow> 'a rollup_arg \<Rightarrow> error + timeseries" where
  "fixedWindowRollup P s arg =
     (let options = destructure_options arg
      in case windowSize options of
           None \<Rightarrow> Inl (Error ''windowSize must be supplied, for example '5m' for five minute rollups'')
         | Some w \<Rightarrow>
             if w = [] then Inl (Error ''windowSize must be supplied, for example '5m' for five minute rollups'')
             else (case aggregation options of
                     Given a \<Rightarrow>
                       (case P (ts_collection s) w a
                               (case toTimeEvents options of None \<Rightarrow> False | Some b \<Rightarrow> b) of
                          Inl e \<Rightarrow> Inl e
                        | Inr c \<Rightarrow> setCollection s c True)
                   | _ \<Rightarrow> Inl (Error ''aggregation object must be supplied, for example: {value: {value: avg()}}'')))"

text \<open>
  \<open>hourlyRollup\<close> checks the aggregation and calls
  \<open>this.fixedWindowRollup("1h", aggregation, toTimeEvents)\<close>: the string \<open>"1h"\<close> is
  the first argument, where \<open>fixedWindowRollup\<close> expects the options object, and the
  two further arguments are not read by it.
\<close>

definition hourlyRollup ::
  "'a pipeline \<Rightarrow> timeseries \<Rightarrow> 'a rollup_options \<Rightarrow> error + timeseries" where
  "hourlyRollup P s options =
     (case aggregation options of
        Given a \<Rightarrow> fixedWindowRollup P s (OptionsString ''1h'')
      | _ \<Rightarrow> Inl (Error ''aggregation object must be supplied, for example: {value: {value: avg()}}''))"

subsection \<open>Reducing a list of series\<close>

text \<open>
  \<open>timeSeriesListEventReduce\<close>: the series list must be an array and the reducer a
  function; the events of all series are collected, reduced, sorted by time if they are
  not in order, and wrapped, with the remaining options as meta data, in a new
  \<open>TimeSeries\<close>. The reducer is a function of the caller and may throw.
\<close>

definition timeSeriesListEventReduce ::
  "klass \<Rightarrow> timeseries list jsarg \<Rightarrow> 'f \<Rightarrow> (event list \<Rightarrow> 'f \<Rightarrow> error + event list) jsarg
     \<Rightarrow> meta \<Rightarrow> error + timeseries" where
  "timeSeriesListEventReduce K seriesList fieldSpec reducer data =
     (case seriesList of
        Given series \<Rightarrow>
          (case reducer of
             Given reduce \<Rightarrow>
               (let eventList = concat (map TimeSeries_events series)
                in case reduce eventList fieldSpec of
                     Inl e \<Rightarrow> Inl e
                   | Inr events \<Rightarrow>
                       (let collection = events;
                            collection = (if \<not> isChronological collection
                                          then sortByTime collection else collection)
                        in TimeSeries_new K
                             (ArgObject \<lparr>o_events = None, o_collection = Some collection,
                                         o_columns = None, o_points = None, o_meta = data\<rparr>)))
           | _ \<Rightarrow> Inl (Error ''reducer function must be supplied, for example avg()''))
      | _ \<Rightarrow> Inl (Error ''A list of TimeSeries must be supplied to reduce''))"

section \<open>Example classes and arguments\<close>

text \<open>
  Concrete collaborators for the examples. The decoder stands for an Avro schema whose
  points carry only the key \<open>time\<close>: a buffer is read as the list of the timestamps of
  its points, and the empty buffer is a payload that does not match the schema.
\<close>

definition example_range :: "string \<Rightarrow> bool \<Rightarrow> timerange" where
  "example_range s utc = \<lparr>tr_begin = 0, tr_end = 0\<rparr>"


definition example_meta :: meta where
  "example_meta = \<lparr>m_name = Some ''traffic'', m_index = None, m_utc = None, m_extra = []\<rparr>"


definition example_point :: "nat \<Rightarrow> avro_point" where
  "example_point n = \<lparr>p_key_name = ''time'', p_key = JNum (int n), p_data = []\<rparr>"

definition example_decoder :: "event_class \<Rightarrow> buffer \<Rightarrow> error + avro_obj" where
  "example_decoder c buf =
     (if buf = [] then Inl (Error ''truncated buffer'')
      else Inr \<lparr>a_columns = [''time''], a_points = map example_point buf,
                a_meta = example_meta\<rparr>)"

text \<open>The class \<open>TimeSeries\<close> itself.\<close>

definition example_class :: klass where
  "example_class = TimeSeries_class example_decoder example_range"

text \<open>
  A subclass that reimplements the static method \<open>event\<close> to return one event class
  for every key, \<open>undefined\<close> included.
\<close>

definition subclass_event :: "string option \<Rightarrow> error + event_class" where
  "subclass_event eventKey = Inr TimeEvent_class"

definition example_subclass :: klass where
  "example_subclass =
     \<lparr>k_name = ''TimeEventSeries'', k_event = subclass_event,
      k_fromBuffer = example_decoder, k_rangeFromIndexString = example_range\<rparr>"

text \<open>A reducer that returns the events it is given, and a pipeline that yields no window.\<close>

definition keep_events :: "event list \<Rightarrow> unit \<Rightarrow> error + event list" where
  "keep_events events fieldSpec = Inr events"

definition example_pipeline :: "unit pipeline" where
  "example_pipeline c w a asTimeEvents = Inr None"

section \<open>Properties of the number printer\<close>




lemma show_nat_small: "n < 10 \<Longrightarrow> show_nat n = [digit_char n]"
  by (subst show_nat.simps) simp

lemma show_nat_big:
  "\<not> n < 10 \<Longrightarrow> show_nat n = show_nat (n div 10) @ [digit_char (n mod 10)]"
  by (subst show_nat.simps) simp










section \<open>Properties of the bucket generator\<close>

lemma unit_not_digit: "is_unit_char c \<Longrightarrow> \<not> is_digit c"
  by (auto simp: is_unit_char_def is_digit_def)

lemma re_match_here_Some:
  assumes "re_match_here s = Some (ds, u)"
  shows "ds = takeWhile is_digit s \<and> ds \<noteq> [] \<and> is_unit_char u \<and> length ds < length s \<and> s ! length ds = u"
proof -
  from assms obtain r where rest: "dropWhile is_digit s = u # r"
    and ds: "ds = takeWhile is_digit s" "ds \<noteq> []" and u: "is_unit_char u"
    by (auto simp: re_match_here_def Let_def split: list.splits if_splits)
  have s: "s = ds @ u # r"
    using rest ds(1) takeWhile_dropWhile_id [of is_digit s] by simp
  then have "length s = length ds + Suc (length r)"
    by (metis length_append length_Cons)
  moreover have "s ! length ds = u"
    using s by (metis nth_append_length)
  ultimately show ?thesis
    using ds u by simp
qed

lemma re_match_here_pair:
  assumes "re_match_here s = Some m"
  shows "\<exists>i. Suc i < length s \<and> is_digit (s ! i) \<and> is_unit_char (s ! Suc i)"
proof -
  obtain ds u where m: "m = (ds, u)" by (cases m)
  note h = re_match_here_Some [OF assms [unfolded m]]
  then have "ds \<noteq> []"
    by blast
  then obtain k where k: "length ds = Suc k"
    by (cases ds) simp_all
  have "s ! k \<in> set (takeWhile is_digit s)"
    using h k by (metis lessI nth_mem takeWhile_nth)
  then have "is_digit (s ! k)"
    by (rule set_takeWhileD [THEN conjunct2])
  with h k show ?thesis
    by auto
qed

lemma re_exec_pair:
  "re_exec s = Some m \<Longrightarrow> \<exists>i. Suc i < length s \<and> is_digit (s ! i) \<and> is_unit_char (s ! Suc i)"
proof (induction s)
  case Nil
  then show ?case by simp
next
  case (Cons c cs)
  show ?case
  proof (cases "re_match_here (c # cs)")
    case None
    with Cons.prems have "re_exec cs = Some m" by simp
    from Cons.IH [OF this] obtain i where "Suc i < length cs" "is_digit (cs ! i)" "is_unit_char (cs ! Suc i)"
      by blast
    then have "Suc (Suc i) < length (c # cs) \<and> is_digit ((c # cs) ! Suc i) \<and> is_unit_char ((c # cs) ! Suc (Suc i))"
      by simp
    then show ?thesis by blast
  next
    case (Some a)
    then show ?thesis by (rule re_match_here_pair)
  qed
qed

lemma pair_re_exec:
  "Suc i < length s \<Longrightarrow> is_digit (s ! i) \<Longrightarrow> is_unit_char (s ! Suc i) \<Longrightarrow> re_exec s \<noteq> None"
proof (induction s arbitrary: i)
  case Nil
  then show ?case by simp
next
  case (Cons c cs)
  show ?case
  proof (cases i)
    case 0
    with Cons.prems obtain u r where cs: "cs = u # r" and "is_digit c" "is_unit_char u"
      by (cases cs) auto
    then have "re_match_here (c # cs) = Some ([c], u)"
      by (simp add: re_match_here_def unit_not_digit)
    then show ?thesis by simp
  next
    case (Suc j)
    with Cons.prems have "re_exec cs \<noteq> None"
      using Cons.IH [of j] by simp
    then show ?thesis
      by (cases "re_match_here (c # cs)") auto
  qed
qed

lemma re_exec_None_iff:
  "re_exec s = None \<longleftrightarrow> \<not> (\<exists>i. Suc i < length s \<and> is_digit (s ! i) \<and> is_unit_char (s ! Suc i))"
  using re_exec_pair [of s] pair_re_exec [of _ s] by (cases "re_exec s") auto

lemma is_unit_char_units: "is_unit_char u \<Longrightarrow> \<exists>l. units u = Some l \<and> 0 < l"
  by (auto simp: is_unit_char_def units_def)

lemma re_exec_valid:
  assumes "valid_size_spec sz"
  shows "re_exec sz = Some (butlast sz, last sz)"
proof -
  from assms have ne: "sz \<noteq> []" and bl: "butlast sz \<noteq> []"
    and dig: "list_all is_digit (butlast sz)" and u: "is_unit_char (last sz)"
    by (simp_all add: valid_size_spec_def)
  have sz: "sz = butlast sz @ [last sz]"
    using ne by simp
  have nd: "\<not> is_digit (last sz)"
    using u by (rule unit_not_digit)
  have "takeWhile is_digit (butlast sz @ [last sz]) = butlast sz"
    using dig nd by (subst takeWhile_append2) (auto simp: list_all_iff)
  then have tw: "takeWhile is_digit sz = butlast sz"
    using sz by simp
  have "dropWhile is_digit (butlast sz @ [last sz]) = [last sz]"
    using dig nd by (subst dropWhile_append2) (auto simp: list_all_iff)
  then have dw: "dropWhile is_digit sz = [last sz]"
    using sz by simp
  have "re_match_here sz = Some (butlast sz, last sz)"
    using tw dw bl u by (simp add: re_match_here_def)
  then show ?thesis
    using ne by (cases sz) simp_all
qed

lemma getLengthFromSize_valid:
  assumes "valid_size_spec sz"
  shows "\<exists>l. units (last sz) = Some l \<and>
    getLengthFromSize sz = Some (js_times (js_times (parseInt_digits (butlast sz)) l) 1000)"
proof -
  from assms have "is_unit_char (last sz)"
    by (simp add: valid_size_spec_def)
  then obtain l where "units (last sz) = Some l"
    using is_unit_char_units by blast
  then show ?thesis
    by (simp add: getLengthFromSize_def re_exec_valid [OF assms])
qed

text \<open>
  While the product stays below \<open>2^53\<close> no rounding occurs: the length is the count
  times the unit times 1000.
\<close>

lemma getLengthFromSize_exact:
  assumes "valid_size_spec sz" and "units (last sz) = Some l"
    and "decimal_value (butlast sz) * l * 1000 < 2 ^ 53"
  shows "getLengthFromSize sz = Some (Finite (decimal_value (butlast sz) * l * 1000))"
proof -
  let ?n = "decimal_value (butlast sz)"
  from assms(1,2) have "0 < l"
    using is_unit_char_units [of "last sz"] by (auto simp: valid_size_spec_def)
  then have "?n * l \<le> ?n * l * 1000" and "?n \<le> ?n * l"
    by simp_all
  with assms(3) have "?n < 2 ^ 53" and "?n * l < 2 ^ 53"
    by linarith+
  then have "js_times (js_times (parseInt_digits (butlast sz)) l) 1000 = Finite (?n * l * 1000)"
    using assms(3) by (simp add: parseInt_digits_def js_times_def round_double_def)
  then show ?thesis
    using getLengthFromSize_valid [OF assms(1)] assms(2) by simp
qed

text \<open>
  Claim C5, as amended. No size specifier makes the computation of a bucket index fail:
  \<open>getLengthFromSize\<close> never throws. A specifier in which no digit is immediately
  followed by a unit letter gives the length \<open>undefined\<close>, the position \<open>NaN\<close> and
  the index \<open>"<spec>-NaN"\<close>, at every instant. A specifier matching the grammar
  gives a length that is a number.
\<close>

theorem bucketIndex_unmatched_size:
  "(\<not> (\<exists>i. Suc i < length sz \<and> is_digit (sz ! i) \<and> is_unit_char (sz ! Suc i)) \<longrightarrow>
      getLengthFromSize sz = None \<and> bucketIndex sz date = sz @ ''-NaN'')
   \<and> (valid_size_spec sz \<longrightarrow> (\<exists>n. getLengthFromSize sz = Some n))"
proof (rule conjI; rule impI)
  assume "\<not> (\<exists>i. Suc i < length sz \<and> is_digit (sz ! i) \<and> is_unit_char (sz ! Suc i))"
  then have "re_exec sz = None"
    using re_exec_None_iff [of sz] by blast
  then show "getLengthFromSize sz = None \<and> bucketIndex sz date = sz @ ''-NaN''"
    by (simp add: bucketIndex_def getLengthFromSize_def getBucketPosFromDate_def
        show_number_def split: option.split)
next
  assume "valid_size_spec sz"
  then show "\<exists>n. getLengthFromSize sz = Some n"
    using getLengthFromSize_valid by blast
qed

lemmas gen_defs = bucketIndex_def getLengthFromSize_def re_match_here_def is_digit_def
  is_unit_char_def units_def parseInt_digits_def decimal_value_def digit_val_def
  getBucketPosFromDate_def valueOf_utc_def parseInt_quotient_def show_number_def show_int_def
  digit_char_def valid_size_spec_def round_double_def js_times_def double_of_quotient_def
  double_le_def round_half_even_def first_printed_digit_def mantissa_shift.simps
  printed_decade.simps printed_digit.simps show_nat.simps Let_def

theorem bucketIndex_unmatched_size_witness:
  "\<not> (\<exists>i. Suc i < length ''5 m'' \<and> is_digit (''5 m'' ! i) \<and> is_unit_char (''5 m'' ! Suc i))
   \<and> bucketIndex ''5 m'' 1400425947000 = ''5 m-NaN''
   \<and> valid_size_spec ''15m''
   \<and> getLengthFromSize ''15m'' = Some (Finite 900000)"
proof -
  have h: "\<not> (\<exists>i. Suc i < length ''5 m'' \<and> is_digit (''5 m'' ! i) \<and> is_unit_char (''5 m'' ! Suc i))"
    by (auto simp: is_digit_def is_unit_char_def nth_Cons' less_Suc_eq numeral_3_eq_3)
  have v: "valid_size_spec ''15m''"
    by (simp add: valid_size_spec_def is_digit_def is_unit_char_def)
  from bucketIndex_unmatched_size [of "''5 m''" 1400425947000] h
  have "bucketIndex ''5 m'' 1400425947000 = ''5 m-NaN''"
    by simp
  moreover from bucketIndex_unmatched_size [of "''15m''" 0] v
  obtain n where "getLengthFromSize ''15m'' = Some n"
    by blast
  then have "getLengthFromSize ''15m'' = Some (Finite 900000)"
    by (simp add: gen_defs)
  ultimately show ?thesis
    using h v by simp
qed

text \<open>
  Claim C5 as stated fails: \<open>"abc"\<close> does not match the grammar, and the bucket index
  is computed without any error.
\<close>

theorem bucketIndex_invalid_size_counterexample:
  "\<not> valid_size_spec ''abc'' \<and> bucketIndex ''abc'' 1400425947000 = ''abc-NaN''"
  by (simp add: gen_defs)

text \<open>
  A specifier that only contains a match of the expression is accepted as well, and the
  embedded match gives the length.
\<close>

lemma bucketIndex_embedded_size:
  "\<not> valid_size_spec ''x5m!'' \<and> bucketIndex ''x5m!'' 600000 = ''x5m!-2''"
  by (simp add: gen_defs)

text \<open>
  A count above \<open>2^53\<close> is rounded to a double before it is multiplied.
\<close>

lemma getLengthFromSize_rounded:
  "getLengthFromSize ''9007199254740993s'' = Some (Finite 9007199254740992000)"
  by (simp add: gen_defs bit_length.simps)

text \<open>
  Claim C6 at an instant before the epoch: for the specifier \<open>"1s"\<close> (length 1000 ms)
  and the instant -1500 ms, \<open>bucketIndex\<close> returns \<open>"1s--1"\<close>, the quotient rounded
  towards zero, where the floor of the quotient is -2.
\<close>

theorem bucketIndex_before_epoch:
  "valid_size_spec ''1s'' \<and> getLengthFromSize ''1s'' = Some (Finite (1 * 1 * 1000))
   \<and> bucketIndex ''1s'' (- 1500) = ''1s--1''
   \<and> ''1s-'' @ show_int ((- 1500) div (1 * 1 * 1000)) = ''1s--2''"
  by (simp add: gen_defs)

text \<open>
  After the epoch the position is the floor of the quotient, as for an hour-sized
  bucket here; but just after the epoch the quotient is printed in exponent notation:
  for the specifier \<open>"1d"\<close> the instant 1 ms gives the position 1, the first digit of
  \<open>1.157e-8\<close>.
\<close>

lemma bucketIndex_after_epoch:
  "bucketIndex ''1h'' 1400425947000 = ''1h-'' @ show_int (1400425947000 div (1 * 3600 * 1000))"
  by (simp add: gen_defs)

lemma bucketIndex_near_epoch:
  "bucketIndex ''1d'' 1 = ''1d-1''"
  by (simp add: gen_defs)

section \<open>Keys of events\<close>












lemma key_examples:
  "key (TimeRangeEvent \<lparr>tr_begin = 1429673400000, tr_end = 1429707600000\<rparr> []) = ''1429673400000,1429707600000''"
  "key (TimeRangeEvent \<lparr>tr_begin = - 5, tr_end = 17\<rparr> []) = ''-5,17''"
  by (simp_all add: show_int_def show_nat_small show_nat_big digit_char_def)

section \<open>Bisection\<close>

lemma chronological_nth_mono:
  assumes "isChronological c" and "i \<le> j" and "j < length c"
  shows "timestamp (c ! i) \<le> timestamp (c ! j)"
proof -
  from assms have "map timestamp c ! i \<le> map timestamp c ! j"
    unfolding isChronological_def by (intro sorted_nth_mono) simp_all
  with assms show ?thesis by simp
qed

text \<open>
  What the loop returns on chronological events when every event before the start
  position is earlier than \<open>t\<close>: the first position with timestamp \<open>t\<close> if there is
  one; otherwise 0 if \<open>t\<close> is before the first event, and else the last position with a
  timestamp before \<open>t\<close>.
\<close>

lemma bisect_loop_chronological:
  assumes chron: "isChronological c" and ne: "c \<noteq> []"
  shows "i \<le> length c \<Longrightarrow> \<forall>j<i. timestamp (c ! j) < t
    \<Longrightarrow> \<exists>r. bisect_loop c t i = int r \<and> r < length c \<and>
     ((\<exists>k<length c. timestamp (c ! k) = t) \<longrightarrow>
        timestamp (c ! r) = t \<and> (\<forall>j<r. timestamp (c ! j) < t)) \<and>
     (\<not> (\<exists>k<length c. timestamp (c ! k) = t) \<and> t < timestamp (c ! 0) \<longrightarrow> r = 0) \<and>
     (\<not> (\<exists>k<length c. timestamp (c ! k) = t) \<and> \<not> t < timestamp (c ! 0) \<longrightarrow>
        timestamp (c ! r) < t \<and> (\<forall>j. r < j \<and> j < length c \<longrightarrow> t < timestamp (c ! j)))"
proof (induction "length c - i" arbitrary: i)
  case 0
  then have i: "i = length c" by simp
  with ne have "i \<noteq> 0" by simp
  then obtain r where r: "i = Suc r"
    using not0_implies_Suc by blast
  have loop: "bisect_loop c t i = int r"
    using i r by (subst bisect_loop.simps) simp
  have before: "\<forall>k<length c. timestamp (c ! k) < t"
    using 0(3) i by simp
  then have nomatch: "\<not> (\<exists>k<length c. timestamp (c ! k) = t)"
    by auto
  have first: "\<not> t < timestamp (c ! 0)"
    using before r i by (metis less_asym zero_less_Suc)
  have "timestamp (c ! r) < t"
    using before r i by simp
  moreover have "\<forall>j. r < j \<and> j < length c \<longrightarrow> t < timestamp (c ! j)"
    using i r by auto
  moreover have "r < length c"
    using i r by simp
  ultimately show ?case
    using loop nomatch first by (intro exI [of _ r]) simp
next
  case (Suc n)
  then have lt: "i < length c" by simp
  have later: "timestamp (c ! i) \<le> timestamp (c ! k)" if "i \<le> k" "k < length c" for k
    using chron that by (rule chronological_nth_mono)
  consider (greater) "timestamp (c ! i) > t" | (equal) "timestamp (c ! i) = t"
    | (less) "timestamp (c ! i) < t"
    by linarith
  then show ?case
  proof cases
    case greater
    have nomatch: "\<not> (\<exists>k<length c. timestamp (c ! k) = t)"
    proof
      assume "\<exists>k<length c. timestamp (c ! k) = t"
      then obtain k where k: "k < length c" "timestamp (c ! k) = t" by blast
      show False
      proof (cases "k < i")
        case True
        with Suc.prems(2) k show False by auto
      next
        case False
        with later [of k] k greater show False by simp
      qed
    qed
    show ?thesis
    proof (cases "i = 0")
      case True
      have "bisect_loop c t i = int 0"
        using lt greater True by (subst bisect_loop.simps) simp
      then show ?thesis
        using nomatch greater True lt by (intro exI [of _ 0]) simp
    next
      case False
      from False obtain r where r: "i = Suc r"
        using not0_implies_Suc by blast
      have loop: "bisect_loop c t i = int r"
        using lt greater r by (subst bisect_loop.simps) simp
      have "timestamp (c ! 0) < t"
        using Suc.prems(2) False by simp
      then have first: "\<not> t < timestamp (c ! 0)"
        by simp
      have prev: "timestamp (c ! r) < t"
        using Suc.prems(2) r by simp
      have "t < timestamp (c ! j)" if "r < j" "j < length c" for j
        using later [of j] that greater r by simp
      moreover have "r < length c"
        using lt r by simp
      ultimately show ?thesis
        using loop nomatch first prev by (intro exI [of _ r]) simp
    qed
  next
    case equal
    have "bisect_loop c t i = int i"
      using lt equal by (subst bisect_loop.simps) simp
    moreover have "\<exists>k<length c. timestamp (c ! k) = t"
      using lt equal by blast
    ultimately show ?thesis
      using equal lt Suc.prems(2) by (intro exI [of _ i]) simp
  next
    case less
    have step: "bisect_loop c t i = bisect_loop c t (Suc i)"
      using lt less by (subst bisect_loop.simps) simp
    have "\<forall>j<Suc i. timestamp (c ! j) < t"
      using Suc.prems(2) less by (simp add: less_Suc_eq)
    moreover have "n = length c - Suc i"
      using Suc.hyps(2) by simp
    moreover have "Suc i \<le> length c"
      using lt by simp
    ultimately show ?thesis
      unfolding step by (intro Suc.hyps(1)) simp_all
  qed
qed


lemma bisect_nonempty:
  "ts_collection s = Some c \<Longrightarrow> c \<noteq> [] \<Longrightarrow> bisect s t None = Some (bisect_loop c t 0)"
  by (simp add: bisect_def TimeSeries_size_def TimeSeries_events_def)

text \<open>
  Claim C3, as amended. On an empty series \<open>bisect(t)\<close> is \<open>undefined\<close>. On a non-empty
  chronological series it returns a position \<open>r\<close> of the series: the first position
  whose timestamp is \<open>t\<close>, if an event has timestamp \<open>t\<close>; otherwise 0 if \<open>t\<close> is
  before the first event, and else the greatest position with a timestamp before \<open>t\<close>.
  So it returns the last position when \<open>t\<close> is after all events, and when no two events
  share a timestamp and \<open>t\<close> is not before the first event, \<open>r\<close> is the greatest position
  with a timestamp at most \<open>t\<close>.
\<close>

theorem bisect_chronological:
  assumes "ts_collection s = Some c" and "isChronological c"
  shows "(c = [] \<longrightarrow> bisect s t None = None) \<and>
    (c \<noteq> [] \<longrightarrow>
      (\<exists>r. bisect s t None = Some (int r) \<and> r < length c \<and>
        ((\<exists>k<length c. timestamp (c ! k) = t) \<longrightarrow>
        timestamp (c ! r) = t \<and> (\<forall>j<r. timestamp (c ! j) < t)) \<and>
     (\<not> (\<exists>k<length c. timestamp (c ! k) = t) \<and> t < timestamp (c ! 0) \<longrightarrow> r = 0) \<and>
     (\<not> (\<exists>k<length c. timestamp (c ! k) = t) \<and> \<not> t < timestamp (c ! 0) \<longrightarrow>
        timestamp (c ! r) < t \<and> (\<forall>j. r < j \<and> j < length c \<longrightarrow> t < timestamp (c ! j))) \<and>
        ((\<forall>k<length c. timestamp (c ! k) < t) \<longrightarrow> r = length c - 1) \<and>
        (distinct (map timestamp c) \<and> timestamp (c ! 0) \<le> t \<longrightarrow>
           timestamp (c ! r) \<le> t \<and> (\<forall>j. r < j \<and> j < length c \<longrightarrow> t < timestamp (c ! j)))))"
proof (intro conjI impI)
  assume "c = []"
  with assms(1) show "bisect s t None = None"
    by (simp add: bisect_def TimeSeries_size_def)
next
  assume ne: "c \<noteq> []"
  from bisect_loop_chronological [OF assms(2) ne, of 0 t]
  obtain r where loop: "bisect_loop c t 0 = int r" and r: "r < length c"
    and match: "(\<exists>k<length c. timestamp (c ! k) = t) \<longrightarrow>
        timestamp (c ! r) = t \<and> (\<forall>j<r. timestamp (c ! j) < t)"
    and before: "\<not> (\<exists>k<length c. timestamp (c ! k) = t) \<and> t < timestamp (c ! 0) \<longrightarrow> r = 0"
    and between: "\<not> (\<exists>k<length c. timestamp (c ! k) = t) \<and> \<not> t < timestamp (c ! 0) \<longrightarrow>
        timestamp (c ! r) < t \<and> (\<forall>j. r < j \<and> j < length c \<longrightarrow> t < timestamp (c ! j))"
    by blast
  have res: "bisect s t None = Some (int r)"
    using bisect_nonempty [OF assms(1) ne] loop by simp
  have last: "r = length c - 1" if all: "\<forall>k<length c. timestamp (c ! k) < t"
  proof (rule ccontr)
    assume "r \<noteq> length c - 1"
    with r have next_pos: "r < Suc r" "Suc r < length c"
      by simp_all
    from all have "\<not> (\<exists>k<length c. timestamp (c ! k) = t)"
      by auto
    moreover from all ne have "\<not> t < timestamp (c ! 0)"
      by (metis length_greater_0_conv less_asym)
    ultimately have "t < timestamp (c ! Suc r)"
      using between next_pos by blast
    with all next_pos show False
      by (metis less_asym)
  qed
  have greatest: "timestamp (c ! r) \<le> t \<and> (\<forall>j. r < j \<and> j < length c \<longrightarrow> t < timestamp (c ! j))"
    if d: "distinct (map timestamp c)" and first: "timestamp (c ! 0) \<le> t"
  proof (cases "\<exists>k<length c. timestamp (c ! k) = t")
    case True
    with match have at_r: "timestamp (c ! r) = t"
      by blast
    have "t < timestamp (c ! j)" if j: "r < j" "j < length c" for j
    proof -
      have "timestamp (c ! r) \<le> timestamp (c ! j)"
        using assms(2) j by (intro chronological_nth_mono) simp_all
      moreover have "map timestamp c ! r \<noteq> map timestamp c ! j"
        using d j r nth_eq_iff_index_eq [of "map timestamp c" r j] by simp
      then have "timestamp (c ! r) \<noteq> timestamp (c ! j)"
        using j r by simp
      ultimately show ?thesis
        using at_r by simp
    qed
    with at_r show ?thesis by simp
  next
    case False
    with first have "\<not> (\<exists>k<length c. timestamp (c ! k) = t) \<and> \<not> t < timestamp (c ! 0)"
      by simp
    with between
    have "timestamp (c ! r) < t \<and> (\<forall>j. r < j \<and> j < length c \<longrightarrow> t < timestamp (c ! j))"
      by (rule mp)
    then have "timestamp (c ! r) < t"
      and "\<forall>j. r < j \<and> j < length c \<longrightarrow> t < timestamp (c ! j)"
      by (rule conjunct1, rule conjunct2)
    then show ?thesis
      by (intro conjI) simp_all
  qed
  show "\<exists>r. bisect s t None = Some (int r) \<and> r < length c \<and>
        ((\<exists>k<length c. timestamp (c ! k) = t) \<longrightarrow>
        timestamp (c ! r) = t \<and> (\<forall>j<r. timestamp (c ! j) < t)) \<and>
     (\<not> (\<exists>k<length c. timestamp (c ! k) = t) \<and> t < timestamp (c ! 0) \<longrightarrow> r = 0) \<and>
     (\<not> (\<exists>k<length c. timestamp (c ! k) = t) \<and> \<not> t < timestamp (c ! 0) \<longrightarrow>
        timestamp (c ! r) < t \<and> (\<forall>j. r < j \<and> j < length c \<longrightarrow> t < timestamp (c ! j))) \<and>
        ((\<forall>k<length c. timestamp (c ! k) < t) \<longrightarrow> r = length c - 1) \<and>
        (distinct (map timestamp c) \<and> timestamp (c ! 0) \<le> t \<longrightarrow>
           timestamp (c ! r) \<le> t \<and> (\<forall>j. r < j \<and> j < length c \<longrightarrow> t < timestamp (c ! j)))"
  proof (intro exI [of _ r] conjI)
    show "bisect s t None = Some (int r)" by (rule res)
    show "r < length c" by (rule r)
    show "(\<exists>k<length c. timestamp (c ! k) = t) \<longrightarrow>
        timestamp (c ! r) = t \<and> (\<forall>j<r. timestamp (c ! j) < t)" by (rule match)
    show "\<not> (\<exists>k<length c. timestamp (c ! k) = t) \<and> t < timestamp (c ! 0) \<longrightarrow> r = 0"
      by (rule before)
    show "\<not> (\<exists>k<length c. timestamp (c ! k) = t) \<and> \<not> t < timestamp (c ! 0) \<longrightarrow>
        timestamp (c ! r) < t \<and> (\<forall>j. r < j \<and> j < length c \<longrightarrow> t < timestamp (c ! j))"
      by (rule between)
    show "(\<forall>k<length c. timestamp (c ! k) < t) \<longrightarrow> r = length c - 1"
      using last by (intro impI)
    show "distinct (map timestamp c) \<and> timestamp (c ! 0) \<le> t \<longrightarrow>
           timestamp (c ! r) \<le> t \<and> (\<forall>j. r < j \<and> j < length c \<longrightarrow> t < timestamp (c ! j))"
      using greatest by (intro impI) (elim conjE)
  qed
qed

text \<open>The examples of the specification: events at 100, 200 and 300.\<close>

lemma bisect_examples:
  "bisect \<lparr>ts_collection = Some [TimeEvent 100 [], TimeEvent 200 [], TimeEvent 300 []],
           ts_data = None\<rparr> 150 None = Some 0"
  "bisect \<lparr>ts_collection = Some [TimeEvent 100 [], TimeEvent 200 [], TimeEvent 300 []],
           ts_data = None\<rparr> 200 None = Some 1"
  "bisect \<lparr>ts_collection = Some [TimeEvent 100 [], TimeEvent 200 [], TimeEvent 300 []],
           ts_data = None\<rparr> 50 None = Some 0"
  "bisect \<lparr>ts_collection = Some [TimeEvent 100 [], TimeEvent 200 [], TimeEvent 300 []],
           ts_data = None\<rparr> 400 None = Some 2"
  by code_simp+

theorem bisect_chronological_witness:
  "ts_collection \<lparr>ts_collection = Some [TimeEvent 100 [], TimeEvent 200 [], TimeEvent 300 []],
                  ts_data = None\<rparr> = Some [TimeEvent 100 [], TimeEvent 200 [], TimeEvent 300 []]
   \<and> isChronological [TimeEvent 100 [], TimeEvent 200 [], TimeEvent 300 []]
   \<and> [TimeEvent 100 [], TimeEvent 200 [], TimeEvent 300 []] \<noteq> []
   \<and> distinct (map timestamp [TimeEvent 100 [], TimeEvent 200 [], TimeEvent 300 []])
   \<and> timestamp ([TimeEvent 100 [], TimeEvent 200 [], TimeEvent 300 []] ! 0) \<le> 250
   \<and> (\<exists>r. bisect \<lparr>ts_collection = Some [TimeEvent 100 [], TimeEvent 200 [], TimeEvent 300 []],
                     ts_data = None\<rparr> 250 None = Some (int r)
         \<and> r < 3
         \<and> timestamp ([TimeEvent 100 [], TimeEvent 200 [], TimeEvent 300 []] ! r) \<le> 250)"
proof -
  let ?c = "[TimeEvent 100 [], TimeEvent 200 [], TimeEvent 300 []]"
  let ?s = "\<lparr>ts_collection = Some ?c, ts_data = None\<rparr>"
  have h1: "ts_collection ?s = Some ?c"
    by simp
  have h2: "isChronological ?c"
    by (simp add: isChronological_def)
  have h3: "distinct (map timestamp ?c)" "timestamp (?c ! 0) \<le> 250" "?c \<noteq> []"
    by simp_all
  from bisect_chronological [OF h1 h2, of 250] h3
  obtain r where "bisect ?s 250 None = Some (int r)" "r < length ?c" "timestamp (?c ! r) \<le> 250"
    by blast
  then show ?thesis
    using h1 h2 h3 by auto
qed

text \<open>
  Claim C3 as stated fails when two events share the timestamp \<open>t\<close>: for events at 100,
  200 and 200, \<open>bisect(200)\<close> returns position 1, and position 2 is a greater position
  whose timestamp is at most 200.
\<close>

theorem bisect_duplicate_counterexample:
  "isChronological [TimeEvent 100 [], TimeEvent 200 [], TimeEvent 200 []]
   \<and> bisect \<lparr>ts_collection = Some [TimeEvent 100 [], TimeEvent 200 [], TimeEvent 200 []],
             ts_data = None\<rparr> 200 None = Some 1
   \<and> timestamp ([TimeEvent 100 [], TimeEvent 200 [], TimeEvent 200 []] ! 2) \<le> 200
   \<and> (2::nat) < length [TimeEvent 100 [], TimeEvent 200 [], TimeEvent 200 []]
   \<and> (1::int) < 2"
  by code_simp

section \<open>Rollups\<close>

text \<open>
  Claim C4 on the code. With an aggregation object given, \<open>hourlyRollup\<close> throws the
  error of a missing \<open>windowSize\<close>, for every series, aggregation and pipeline, since
  it passes the string \<open>"1h"\<close> where \<open>fixedWindowRollup\<close> reads an options object;
  \<open>fixedWindowRollup\<close> with the options \<open>{windowSize: "1h", aggregation, toTimeEvents}\<close>
  runs the pipeline and wraps its result.
\<close>

theorem hourlyRollup_throws:
  "hourlyRollup P s \<lparr>windowSize = w, aggregation = Given a, toTimeEvents = t\<rparr> =
     Inl (Error ''windowSize must be supplied, for example '5m' for five minute rollups'')
   \<and> fixedWindowRollup P s
        (OptionsObject \<lparr>windowSize = Some ''1h'', aggregation = Given a, toTimeEvents = t\<rparr>) =
      (case P (ts_collection s) ''1h'' a (case t of None \<Rightarrow> False | Some b \<Rightarrow> b) of
         Inl e \<Rightarrow> Inl e
       | Inr c \<Rightarrow> setCollection s c True)"
  by (simp add: hourlyRollup_def fixedWindowRollup_def destructure_options_def)

lemma hourlyRollup_example:
  "hourlyRollup example_pipeline \<lparr>ts_collection = Some [TimeEvent 100 []], ts_data = None\<rparr>
     \<lparr>windowSize = None, aggregation = Given (), toTimeEvents = None\<rparr> =
     Inl (Error ''windowSize must be supplied, for example '5m' for five minute rollups'')"
  "fixedWindowRollup example_pipeline \<lparr>ts_collection = Some [TimeEvent 100 []], ts_data = None\<rparr>
     (OptionsObject \<lparr>windowSize = Some ''1h'', aggregation = Given (), toTimeEvents = None\<rparr>) =
     Inr \<lparr>ts_collection = Some [], ts_data = None\<rparr>"
  by (simp_all add: hourlyRollup_def fixedWindowRollup_def destructure_options_def
      example_pipeline_def setCollection_def)

section \<open>Reducing a list of series\<close>

lemma isChronological_sortByTime: "isChronological (sortByTime c)"
  by (simp add: isChronological_def sortByTime_def)

lemma from_object_collection:
  "isChronological c \<Longrightarrow>
   from_object K \<lparr>o_events = None, o_collection = Some c, o_columns = None, o_points = None,
                  o_meta = data\<rparr> =
   Inr \<lparr>ts_collection = Some c, ts_data = Some (buildMetaData (k_rangeFromIndexString K) data)\<rparr>"
  by (simp add: from_object_def check_chronological_def)

text \<open>
  Claim C8, as amended. \<open>timeSeriesListEventReduce\<close> throws the error of the series
  list when the list is missing or is not an array, and the error of the reducer when
  the list is an array and the reducer is missing or is not a function. With an array,
  empty or not, and a reducer that returns the events \<open>es\<close>, it returns the series of
  \<open>es\<close>, sorted by time if \<open>es\<close> is not chronological; the collection of the result
  is chronological.
\<close>

theorem timeSeriesListEventReduce_cases:
  "timeSeriesListEventReduce K Missing fieldSpec reducer data =
     Inl (Error ''A list of TimeSeries must be supplied to reduce'')
   \<and> timeSeriesListEventReduce K WrongType fieldSpec reducer data =
     Inl (Error ''A list of TimeSeries must be supplied to reduce'')
   \<and> timeSeriesListEventReduce K (Given series) fieldSpec Missing data =
     Inl (Error ''reducer function must be supplied, for example avg()'')
   \<and> timeSeriesListEventReduce K (Given series) fieldSpec WrongType data =
     Inl (Error ''reducer function must be supplied, for example avg()'')
   \<and> (reduce (concat (map TimeSeries_events series)) fieldSpec = Inr es \<longrightarrow>
        timeSeriesListEventReduce K (Given series) fieldSpec (Given reduce) data =
          Inr \<lparr>ts_collection = Some (if isChronological es then es else sortByTime es),
               ts_data = Some (buildMetaData (k_rangeFromIndexString K) data)\<rparr>
        \<and> isChronological (if isChronological es then es else sortByTime es))"
proof -
  have "timeSeriesListEventReduce K (Given series) fieldSpec (Given reduce) data =
          Inr \<lparr>ts_collection = Some (if isChronological es then es else sortByTime es),
               ts_data = Some (buildMetaData (k_rangeFromIndexString K) data)\<rparr>"
    if "reduce (concat (map TimeSeries_events series)) fieldSpec = Inr es"
    using that
    by (simp add: timeSeriesListEventReduce_def TimeSeries_new_def TimeSeries_constructor_def
        from_object_collection isChronological_sortByTime)
  moreover have "isChronological (if isChronological es then es else sortByTime es)"
    by (simp add: isChronological_sortByTime)
  ultimately show ?thesis
    by (simp add: timeSeriesListEventReduce_def)
qed

theorem timeSeriesListEventReduce_cases_witness:
  "keep_events (concat (map TimeSeries_events
       [\<lparr>ts_collection = Some [TimeEvent 300 []], ts_data = None\<rparr>,
        \<lparr>ts_collection = Some [TimeEvent 100 [], TimeEvent 200 []], ts_data = None\<rparr>])) ()
     = Inr [TimeEvent 300 [], TimeEvent 100 [], TimeEvent 200 []]
   \<and> timeSeriesListEventReduce example_class
       (Given [\<lparr>ts_collection = Some [TimeEvent 300 []], ts_data = None\<rparr>,
               \<lparr>ts_collection = Some [TimeEvent 100 [], TimeEvent 200 []], ts_data = None\<rparr>])
       () (Given keep_events) example_meta =
     Inr \<lparr>ts_collection = Some [TimeEvent 100 [], TimeEvent 200 [], TimeEvent 300 []],
          ts_data = Some \<lparr>m_name = Some ''traffic'', m_index = None, m_utc = Some True,
                           m_extra = []\<rparr>\<rparr>"
proof -
  let ?series = "[\<lparr>ts_collection = Some [TimeEvent 300 []], ts_data = None\<rparr>,
        \<lparr>ts_collection = Some [TimeEvent 100 [], TimeEvent 200 []], ts_data = None\<rparr>]"
  have h: "keep_events (concat (map TimeSeries_events ?series)) ()
     = Inr [TimeEvent 300 [], TimeEvent 100 [], TimeEvent 200 []]"
    by (simp add: keep_events_def TimeSeries_events_def)
  have s: "sortByTime [TimeEvent 300 [], TimeEvent 100 [], TimeEvent 200 []] =
    [TimeEvent 100 [], TimeEvent 200 [], TimeEvent 300 []]"
    by (simp add: sortByTime_def)
  have c: "\<not> isChronological [TimeEvent 300 [], TimeEvent 100 [], TimeEvent 200 []]"
    by (simp add: isChronological_def)
  have m: "buildMetaData (k_rangeFromIndexString example_class) example_meta =
    \<lparr>m_name = Some ''traffic'', m_index = None, m_utc = Some True, m_extra = []\<rparr>"
    by (simp add: buildMetaData_def example_meta_def)
  from timeSeriesListEventReduce_cases [of example_class "()" "Given keep_events" example_meta
      ?series keep_events "[TimeEvent 300 [], TimeEvent 100 [], TimeEvent 200 []]"] h
  show ?thesis
    by (simp add: s c m)
qed

text \<open>
  Claim C8 as stated fails on the empty list: an empty array of series with a reducer is
  accepted, and the result is the empty series.
\<close>

theorem timeSeriesListEventReduce_empty_counterexample:
  "timeSeriesListEventReduce example_class (Given []) () (Given keep_events) example_meta =
     Inr \<lparr>ts_collection = Some [],
          ts_data = Some \<lparr>m_name = Some ''traffic'', m_index = None, m_utc = Some True,
                           m_extra = []\<rparr>\<rparr>"
  by (simp add: timeSeriesListEventReduce_def keep_events_def isChronological_def
      TimeSeries_new_def TimeSeries_constructor_def from_object_def check_chronological_def
      buildMetaData_def example_meta_def)

section \<open>Serialization of an empty series\<close>

text \<open>
  Claim C10, as amended. For a series that has a collection and whose collection holds
  no event, \<open>toJSON()\<close> returns no value. A series constructed from that result has
  neither collection nor meta data, and \<open>TimeSeries.is\<close> does not hold between the
  two: the round trip through JSON does not apply to an empty series.
\<close>

theorem toJSON_empty:
  assumes "ts_collection s = Some c" and "TimeSeries_size s = 0"
  shows "toJSON s = Inr None
    \<and> TimeSeries_new K (arg_of_json None) = Inr \<lparr>ts_collection = None, ts_data = None\<rparr>
    \<and> TimeSeries_is s \<lparr>ts_collection = None, ts_data = None\<rparr> \<noteq> Inr True"
proof -
  from assms have "c = []"
    by (simp add: TimeSeries_size_def)
  with assms(1) have "toJSON s = Inr None"
    by (simp add: toJSON_def atFirst_def)
  moreover have "TimeSeries_new K (arg_of_json None) = Inr \<lparr>ts_collection = None, ts_data = None\<rparr>"
    by (simp add: TimeSeries_new_def TimeSeries_constructor_def arg_of_json_def)
  moreover have "TimeSeries_is s \<lparr>ts_collection = None, ts_data = None\<rparr> \<noteq> Inr True"
    using assms(1) by (simp add: TimeSeries_is_def Collection_is_def)
  ultimately show ?thesis
    by simp
qed

theorem toJSON_empty_witness:
  "ts_collection \<lparr>ts_collection = Some [], ts_data = Some example_meta\<rparr> = Some []
   \<and> TimeSeries_size \<lparr>ts_collection = Some [], ts_data = Some example_meta\<rparr> = 0
   \<and> toJSON \<lparr>ts_collection = Some [], ts_data = Some example_meta\<rparr> = Inr None"
proof -
  have h1: "ts_collection \<lparr>ts_collection = Some [], ts_data = Some example_meta\<rparr> = Some []"
    by simp
  have h2: "TimeSeries_size \<lparr>ts_collection = Some [], ts_data = Some example_meta\<rparr> = 0"
    by (simp add: TimeSeries_size_def)
  from toJSON_empty [OF h1 h2, of example_class] h1 h2 show ?thesis
    by simp
qed

text \<open>
  Claim C10 as stated fails on a series without a collection: the series constructed
  from \<open>undefined\<close> has the size 0, so it contains zero events, and \<open>toJSON()\<close> throws
  on it where the claim has it return no value.
\<close>

theorem toJSON_no_collection_counterexample:
  "TimeSeries_new example_class ArgOther = Inr \<lparr>ts_collection = None, ts_data = None\<rparr>
   \<and> TimeSeries_size \<lparr>ts_collection = None, ts_data = None\<rparr> = 0
   \<and> toJSON \<lparr>ts_collection = None, ts_data = None\<rparr>
       = Inl (TypeError ''Cannot read property atFirst of null'')"
  by (simp add: TimeSeries_new_def TimeSeries_constructor_def TimeSeries_size_def toJSON_def)

section \<open>The chronological invariant of the constructor\<close>

text \<open>
  The object branch of the constructor (event list, collection, wire format) ends with
  the check: a series it returns has a chronological collection.
\<close>

lemma check_chronological_Inr:
  "check_chronological s = Inr s' \<Longrightarrow> s' = s \<and> (\<exists>c. ts_collection s = Some c \<and> isChronological c)"
  by (auto simp: check_chronological_def split: option.splits if_splits)

lemma from_object_chronological:
  assumes "from_object K obj = Inr s"
  shows "\<exists>c. ts_collection s = Some c \<and> isChronological c"
proof -
  from assms obtain s0 where "check_chronological s0 = Inr s"
    by (auto simp: from_object_def Let_def split: option.splits sum.splits prod.splits)
  then show ?thesis
    using check_chronological_Inr by blast
qed

lemma TimeSeries_new_object_chronological:
  "TimeSeries_new K (ArgObject obj) = Inr s \<Longrightarrow> \<exists>c. ts_collection s = Some c \<and> isChronological c"
  by (simp add: TimeSeries_new_def TimeSeries_constructor_def from_object_chronological)

text \<open>
  Claim C1 on the buffer branch. In a subclass whose \<open>event\<close> accepts every key, a
  buffer that decodes to the points at 200 and 100 constructs a series, with nothing
  written to the console, whose collection is not chronological: the branch returns
  before the check.
\<close>

theorem TimeSeries_from_buffer_not_chronological:
  "TimeSeries_constructor example_subclass (ArgBuffer [200, 100]) =
     (Inr \<lparr>ts_collection = Some [TimeEvent 200 [], TimeEvent 100 []],
           ts_data = Some \<lparr>m_name = Some ''traffic'', m_index = None, m_utc = Some True,
                            m_extra = []\<rparr>\<rparr>, [])
   \<and> \<not> isChronological [TimeEvent 200 [], TimeEvent 100 []]"
  by (simp add: TimeSeries_constructor_def from_buffer_def decode_buffer_def example_subclass_def
      subclass_event_def example_decoder_def example_point_def example_meta_def new_Event_def
      buildMetaData_def isChronological_def)

text \<open>The same points in the wire format are refused by the object branch.\<close>

lemma TimeSeries_from_wire_not_chronological:
  "TimeSeries_new example_subclass
     (ArgObject \<lparr>o_events = None, o_collection = None, o_columns = Some [''time''],
                 o_points = Some [[JNum 200], [JNum 100]], o_meta = example_meta\<rparr>) =
   Inl (Error ''TimeSeries was passed non-chronological events'')"
  by (simp add: TimeSeries_new_def TimeSeries_constructor_def from_object_def example_subclass_def
      subclass_event_def example_meta_def new_Event_def js_object_def
      check_chronological_def isChronological_def)

section \<open>Decoding failures\<close>

text \<open>
  When the \<open>try\<close> block of the buffer branch fails, the error is written to the console
  and the constructor then throws a \<open>TypeError\<close>.
\<close>

lemma from_buffer_decode_failure:
  "decode_buffer K buf = Inl e \<Longrightarrow>
   TimeSeries_constructor K (ArgBuffer buf) =
     (Inl (TypeError ''Cannot destructure property columns of undefined''),
      [''Unable to construct '' @ k_name K @ '' from Avro Buffer: '' @ error_string e])"
  by (simp add: TimeSeries_constructor_def from_buffer_def)

text \<open>
  In the class \<open>TimeSeries\<close> itself the block fails for every buffer and every decoder:
  \<open>this.schema()\<close> asks \<open>event\<close> for the class of the key \<open>undefined\<close>.
\<close>

lemma TimeSeries_from_buffer_base_class:
  "TimeSeries_constructor (TimeSeries_class dec R) (ArgBuffer buf) =
     (Inl (TypeError ''Cannot destructure property columns of undefined''),
      [''Unable to construct TimeSeries from Avro Buffer: Error: Unknown event type: undefined''])"
  by (simp add: from_buffer_decode_failure decode_buffer_def TimeSeries_class_def
      TimeSeries_event_def)

text \<open>
  Claim C2 on the code. In the subclass of the examples the empty buffer does not match
  the schema: the failure is written to the console, and the constructor does not
  return but throws a \<open>TypeError\<close> to the caller.
\<close>

theorem TimeSeries_from_malformed_buffer_throws:
  "decode_buffer example_subclass [] = Inl (Error ''truncated buffer'')
   \<and> TimeSeries_constructor example_subclass (ArgBuffer []) =
     (Inl (TypeError ''Cannot destructure property columns of undefined''),
      [''Unable to construct TimeEventSeries from Avro Buffer: Error: truncated buffer''])"
  by (simp add: TimeSeries_constructor_def from_buffer_def decode_buffer_def example_subclass_def
      subclass_event_def example_decoder_def)

section \<open>The round trip through JSON\<close>

subsection \<open>Assignments to an object\<close>









subsection \<open>The JSON form of a map\<close>






subsection \<open>Objects built by \<open>_.object\<close>\<close>



subsection \<open>Columns of a collection whose events have the same keys\<close>





subsection \<open>Loops over points\<close>

lemma map_result_Inr:
  "map_result f xs = Inr ys \<Longrightarrow> list_all2 (\<lambda>x y. f x = Inr y) xs ys"
  by (induction xs arbitrary: ys) (auto split: sum.splits)



subsection \<open>Events and their points\<close>





subsection \<open>Meta data\<close>











end
